theory Spec2Isabelle
  imports Complex_Main
begin

section \<open>Batch spatial join: scripts/gage\_claims\_50km.py\<close>

subsection \<open>Data\<close>

text \<open>
  Floating-point numbers are modelled as reals. A pandas \<open>Timestamp\<close> is its integer
  number of nanoseconds since the epoch; the string written by
  \<open>strftime('%Y-%m-%d')\<close> is represented by the number of the calendar day it names.
\<close>

type_synonym timestamp = int
type_synonym day = int

definition ns_per_day :: int where
  "ns_per_day = 86400000000000"

definition strftime_ymd :: "timestamp \<Rightarrow> day" where
  "strftime_ymd t = t div ns_per_day"

text \<open>
  A row of the cleaned \<open>claims\<close> frame (after lines 23--27 have dropped the rows with a
  missing coordinate or an unparsable date): \<open>point\<close> is the pair of the columns
  \<open>['longitude', 'latitude']\<close>, in that order, in degrees.
\<close>

record claim =
  point :: "real \<times> real"
  dateOfLoss :: timestamp

text \<open>
  A cell of the gauge table as \<open>read_csv\<close> delivers it (a string, a number, a missing
  value) or as a caller may pass it (a sequence of numbers); a gauge row maps column
  names to cells. The output row holds the original cells and the two new list cells.
\<close>

datatype cell = Str string | Num real | NaN | Floats "real list"

datatype out_cell = Orig cell | DateList "day list" | CountList "nat list"

type_synonym gage = "string \<rightharpoonup> cell"
type_synonym out_row = "string \<rightharpoonup> out_cell"

datatype error = KeyError string | ValueError

subsection \<open>parse\_coord\<close>

text \<open>
  \<open>py_eval s\<close> stands for \<open>[float(v) for v in eval(s)]\<close>: \<open>None\<close> when either
  \<open>eval\<close> or a \<open>float\<close> conversion raises, which the bare \<open>except\<close> turns into \<open>[]\<close>.
\<close>

definition parse_coord :: "(string \<Rightarrow> real list option) \<Rightarrow> cell \<Rightarrow> real list" where
  "parse_coord py_eval coord =
     (case coord of
        Str s \<Rightarrow> (case py_eval s of Some vals \<Rightarrow> vals | None \<Rightarrow> [])
      | Floats vs \<Rightarrow> vs
      | _ \<Rightarrow> [])"

subsection \<open>The ball tree and its metric\<close>

definition radians :: "real \<Rightarrow> real" where
  "radians deg = deg * pi / 180"

text \<open>
  The haversine metric of the neighbours library, as it documents and computes it: the
  first coordinate of each point is taken as the latitude and the second as the
  longitude, both in radians, and the result is the central angle
  \<open>2 * asin (sqrt (sin_0 * sin_0 + cos x1[0] * cos x2[0] * sin_1 * sin_1))\<close>.
\<close>

definition haversine :: "real \<times> real \<Rightarrow> real \<times> real \<Rightarrow> real" where
  "haversine x1 x2 =
     (let sin_0 = sin (0.5 * (fst x1 - fst x2));
          sin_1 = sin (0.5 * (snd x1 - snd x2))
      in 2 * arcsin (sqrt (sin_0 * sin_0 + cos (fst x1) * cos (fst x2) * sin_1 * sin_1)))"

text \<open>
  Building the tree raises \<open>ValueError\<close> when there is no point at all. A tree that was
  built is represented by the points it was built from; a radius query returns the
  positions of the points whose metric distance to the query point is at most \<open>r\<close>.
  The library leaves the order of the returned positions open; the grouping below does
  not depend on it (\<open>groupby_size_order\<close>). Every position returned for the tree of \<open>main\<close> is
  a row of \<open>claims\<close> (\<open>vertex_matches_in_range\<close>), so \<open>iloc\<close> never reads out of range.
\<close>

definition BallTree :: "(real \<times> real) list \<Rightarrow> error + (real \<times> real) list" where
  "BallTree X = (if X = [] then Inl ValueError else Inr X)"

definition query_radius :: "(real \<times> real) list \<Rightarrow> real \<times> real \<Rightarrow> real \<Rightarrow> nat list" where
  "query_radius tree x r = filter (\<lambda>i. haversine (tree ! i) x \<le> r) [0..<length tree]"

definition claim_points_rad :: "claim list \<Rightarrow> (real \<times> real) list" where
  "claim_points_rad claims = map (\<lambda>c. (radians (fst (point c)), radians (snd (point c)))) claims"

definition radius :: real where
  "radius = 50 / 6371.0"

subsection \<open>Grouping and the loop over the vertices\<close>

definition iloc :: "claim list \<Rightarrow> nat list \<Rightarrow> claim list" where
  "iloc claims ind = map (\<lambda>i. claims ! i) ind"

text \<open>\<open>groupby(key).size()\<close>: the distinct keys in ascending order, each with the number of
  rows that carry it.\<close>

definition groupby_size :: "timestamp list \<Rightarrow> (timestamp \<times> nat) list" where
  "groupby_size ks = map (\<lambda>k. (k, count_list ks k)) (sort (remdups ks))"

fun vertex_loop ::
  "claim list \<Rightarrow> (real \<times> real) list \<Rightarrow> (real \<times> real) list \<Rightarrow> day list \<times> nat list
     \<Rightarrow> day list \<times> nat list" where
  "vertex_loop claims tree [] (gage_dates, gage_counts) = (gage_dates, gage_counts)"
| "vertex_loop claims tree ((lon_g, lat_g) # rest) (gage_dates, gage_counts) =
     (let gage_point_rad = (radians lon_g, radians lat_g);
          ind = query_radius tree gage_point_rad radius
      in if length ind > 0
         then (let matched_claims = iloc claims ind;
                   date_counts = groupby_size (map dateOfLoss matched_claims)
               in vertex_loop claims tree rest
                    (gage_dates @ map (\<lambda>kc. strftime_ymd (fst kc)) date_counts,
                     gage_counts @ map snd date_counts))
         else vertex_loop claims tree rest (gage_dates, gage_counts))"

subsection \<open>main\<close>

definition column :: "gage \<Rightarrow> string \<Rightarrow> error + cell" where
  "column gage k = (case gage k of None \<Rightarrow> Inl (KeyError k) | Some v \<Rightarrow> Inr v)"

definition gage_row ::
  "(string \<Rightarrow> real list option) \<Rightarrow> claim list \<Rightarrow> (real \<times> real) list \<Rightarrow> gage \<Rightarrow> error + out_row" where
  "gage_row py_eval claims tree gage =
     (case column gage ''longitude'' of
        Inl e \<Rightarrow> Inl e
      | Inr lon_cell \<Rightarrow>
          (case column gage ''latitude'' of
             Inl e \<Rightarrow> Inl e
           | Inr lat_cell \<Rightarrow>
               (let lon_arr = parse_coord py_eval lon_cell;
                    lat_arr = parse_coord py_eval lat_cell;
                    series = vertex_loop claims tree (zip lon_arr lat_arr) ([], []);
                    row = (\<lambda>k. map_option Orig (gage k))
                in Inr (row(''dates'' \<mapsto> DateList (fst series),
                            ''num_claims'' \<mapsto> CountList (snd series))))))"

fun main_loop ::
  "(string \<Rightarrow> real list option) \<Rightarrow> claim list \<Rightarrow> (real \<times> real) list \<Rightarrow> gage list
     \<Rightarrow> out_row list \<Rightarrow> error + out_row list" where
  "main_loop py_eval claims tree [] output_rows = Inr output_rows"
| "main_loop py_eval claims tree (gage # gages) output_rows =
     (case gage_row py_eval claims tree gage of
        Inl e \<Rightarrow> Inl e
      | Inr row \<Rightarrow> main_loop py_eval claims tree gages (output_rows @ [row]))"

definition main :: "(string \<Rightarrow> real list option) \<Rightarrow> claim list \<Rightarrow> gage list \<Rightarrow> error + out_row list" where
  "main py_eval claims gages =
     (case BallTree (claim_points_rad claims) of
        Inl e \<Rightarrow> Inl e
      | Inr tree \<Rightarrow> main_loop py_eval claims tree gages [])"

text \<open>The two sequences that \<open>main\<close> writes into the row of a gauge whose coordinate
  cells parse to \<open>lon_arr\<close> and \<open>lat_arr\<close>, the tree being the one built from the claims (for
  an empty claim set no tree is built and \<open>main\<close> raises before the first gauge).\<close>

definition gage_series :: "claim list \<Rightarrow> real list \<Rightarrow> real list \<Rightarrow> day list \<times> nat list" where
  "gage_series claims lon_arr lat_arr =
     vertex_loop claims (claim_points_rad claims) (zip lon_arr lat_arr) ([], [])"

text \<open>The distance the specification measures by: the great-circle distance in
  kilometres on a sphere of radius 6371 km between two points given as
  (longitude, latitude) in degrees, the latitude entering the formula as latitude.\<close>

definition great_circle_km :: "real \<times> real \<Rightarrow> real \<times> real \<Rightarrow> real" where
  "great_circle_km p c =
     6371 * haversine (radians (snd p), radians (fst p)) (radians (snd c), radians (fst c))"

text \<open>The row that \<open>main\<close> appends for a gauge that has both coordinate columns.\<close>

definition has_columns :: "gage \<Rightarrow> bool" where
  "has_columns gage = (gage ''longitude'' \<noteq> None \<and> gage ''latitude'' \<noteq> None)"

definition coord_arr :: "(string \<Rightarrow> real list option) \<Rightarrow> gage \<Rightarrow> string \<Rightarrow> real list" where
  "coord_arr py_eval gage k = (case gage k of Some c \<Rightarrow> parse_coord py_eval c | None \<Rightarrow> [])"

definition out_row_of :: "(string \<Rightarrow> real list option) \<Rightarrow> claim list \<Rightarrow> gage \<Rightarrow> out_row" where
  "out_row_of py_eval claims gage =
     (let series = gage_series claims (coord_arr py_eval gage ''longitude'')
                     (coord_arr py_eval gage ''latitude'')
      in (\<lambda>k. map_option Orig (gage k))
           (''dates'' \<mapsto> DateList (fst series), ''num_claims'' \<mapsto> CountList (snd series)))"

text \<open>The contribution of one footprint vertex, and the positions it matches, with the
  tree and the radius that \<open>main\<close> uses.\<close>

definition vertex_matches :: "claim list \<Rightarrow> real \<times> real \<Rightarrow> nat list" where
  "vertex_matches claims v =
     query_radius (claim_points_rad claims) (radians (fst v), radians (snd v)) radius"

definition matched_set :: "claim list \<Rightarrow> real list \<Rightarrow> real list \<Rightarrow> nat set" where
  "matched_set claims lon_arr lat_arr =
     \<Union> (set (map (\<lambda>v. set (vertex_matches claims v)) (zip lon_arr lat_arr)))"

text \<open>What one pass of the loop body appends for the vertex \<open>v\<close>: the grouped counts, and
  the two segments made of them.\<close>

definition vertex_counts ::
  "claim list \<Rightarrow> (real \<times> real) list \<Rightarrow> real \<times> real \<Rightarrow> (timestamp \<times> nat) list" where
  "vertex_counts claims tree v =
     groupby_size
       (map dateOfLoss (iloc claims (query_radius tree (radians (fst v), radians (snd v)) radius)))"

definition vertex_series :: "claim list \<Rightarrow> real \<times> real \<Rightarrow> day list \<times> nat list" where
  "vertex_series claims v =
     (let date_counts = vertex_counts claims (claim_points_rad claims) v
      in (map (\<lambda>kc. strftime_ymd (fst kc)) date_counts, map snd date_counts))"

text \<open>The number of claims that a pair of output sequences reports for one day.\<close>

definition day_total :: "day \<Rightarrow> day list \<times> nat list \<Rightarrow> nat" where
  "day_total d series =
     sum_list (map snd (filter (\<lambda>dc. fst dc = d) (zip (fst series) (snd series))))"

text \<open>
  The expansion as the specification words it (sections 4.2 and 4.3), for comparison
  with the code: the matched positions of all vertices are united first, and the united
  set is then grouped by calendar day.
\<close>

definition spec_expand :: "claim list \<Rightarrow> real list \<Rightarrow> real list \<Rightarrow> day list \<times> nat list" where
  "spec_expand claims lon_arr lat_arr =
     (let ind = remdups (concat (map (vertex_matches claims) (zip lon_arr lat_arr)));
          days = map (\<lambda>c. strftime_ymd (dateOfLoss c)) (iloc claims ind);
          date_counts = groupby_size days
      in (map fst date_counts, map snd date_counts))"

section \<open>Interactive queries: scripts/final.py\<close>

subsection \<open>Data\<close>

text \<open>
  A row of the stored table once \<open>literal_eval\<close> has turned its four list columns into
  lists; reading the file and parsing the cells is input handling outside this model.
  \<open>load_gage_data\<close> adds the centre and the totals; a missing centre (\<open>nan\<close>) is \<open>None\<close>.
\<close>

record gauge =
  gauge_id :: nat
  longitude :: "real list"
  latitude :: "real list"
  discharge :: real
  sqmi :: real
  dates :: "day list"
  num_claims :: "nat list"

record summary = gauge +
  center_lon :: "real option"
  center_lat :: "real option"
  total_claims :: nat
  num_events :: nat

text \<open>A distance in kilometres or \<open>inf\<close>.\<close>

datatype xreal = Fin real | PInf

instantiation xreal :: linorder
begin

fun less_eq_xreal :: "xreal \<Rightarrow> xreal \<Rightarrow> bool" where
  "less_eq_xreal (Fin a) (Fin b) = (a \<le> b)"
| "less_eq_xreal x PInf = True"
| "less_eq_xreal PInf (Fin b) = False"

definition less_xreal :: "xreal \<Rightarrow> xreal \<Rightarrow> bool" where
  "less_xreal x y = (x \<le> y \<and> \<not> y \<le> x)"

instance
proof
  fix x y z :: xreal
  show "(x < y) = (x \<le> y \<and> \<not> y \<le> x)" by (simp add: less_xreal_def)
  show "x \<le> x" by (cases x) simp_all
  show "x \<le> y \<Longrightarrow> y \<le> z \<Longrightarrow> x \<le> z" by (cases x; cases y; cases z) simp_all
  show "x \<le> y \<Longrightarrow> y \<le> x \<Longrightarrow> x = y" by (cases x; cases y) simp_all
  show "x \<le> y \<or> y \<le> x" by (cases x; cases y) auto
qed

end

record ranked = summary +
  distance_km :: xreal

datatype event =
  Event (ev_gauge_id: nat) (ev_date: timestamp) (ev_claims: nat) (ev_discharge: real)
    (ev_distance_km: xreal)

subsection \<open>load\_gage\_data\<close>

definition mean :: "real list \<Rightarrow> real" where
  "mean x = sum_list x / real (length x)"

definition load_row :: "gauge \<Rightarrow> summary" where
  "load_row g =
     gauge.extend g
       (summary.fields
          (if longitude g \<noteq> [] then Some (mean (longitude g)) else None)
          (if latitude g \<noteq> [] then Some (mean (latitude g)) else None)
          (if num_claims g \<noteq> [] then sum_list (num_claims g) else 0)
          (if dates g \<noteq> [] then length (dates g) else 0))"

definition load_gage_data :: "gauge list \<Rightarrow> summary list" where
  "load_gage_data df = map load_row df"


subsection \<open>find\_closest\_gauges\<close>

text \<open>
  \<open>geodesic a b\<close> stands for the ellipsoidal distance of the geodesy library in
  kilometres, \<open>None\<close> when the library raises. The frame argument is \<open>None\<close> when the
  caller passes \<open>None\<close>. \<open>sort_values('distance_km')\<close> is the insertion sort \<open>sort_key\<close>, which
  keeps rows with equal keys in their order; the library's default sort promises no
  order among equal keys.
\<close>

definition dropna_center :: "summary list \<Rightarrow> summary list" where
  "dropna_center df = filter (\<lambda>row. center_lat row \<noteq> None \<and> center_lon row \<noteq> None) df"

text \<open>The body of the \<open>try\<close>; the last case cannot occur for a row of \<open>df_clean\<close>.\<close>

definition row_distance ::
  "(real \<times> real \<Rightarrow> real \<times> real \<Rightarrow> real option) \<Rightarrow> real \<Rightarrow> real \<Rightarrow> summary \<Rightarrow> xreal" where
  "row_distance geodesic target_lat target_lon row =
     (case (center_lat row, center_lon row) of
        (Some lat, Some lon) \<Rightarrow>
          (case geodesic (target_lat, target_lon) (lat, lon) of
             Some kilometers \<Rightarrow> Fin kilometers
           | None \<Rightarrow> PInf)
      | _ \<Rightarrow> PInf)"

definition with_distance :: "summary \<Rightarrow> xreal \<Rightarrow> ranked" where
  "with_distance row d = summary.extend row (ranked.fields d)"

definition find_closest_gauges ::
  "(real \<times> real \<Rightarrow> real \<times> real \<Rightarrow> real option) \<Rightarrow> summary list option \<Rightarrow> real \<Rightarrow> real \<Rightarrow> xreal
     \<Rightarrow> ranked list" where
  "find_closest_gauges geodesic df target_lat target_lon max_distance_km =
     (case df of
        None \<Rightarrow> []
      | Some rows \<Rightarrow>
          if rows = [] then []
          else (let df_clean = dropna_center rows
                in if df_clean = [] then []
                   else (let distances = map (row_distance geodesic target_lat target_lon) df_clean;
                             df_clean' = map (\<lambda>rd. with_distance (fst rd) (snd rd)) (zip df_clean distances);
                             nearby_gauges = filter (\<lambda>r. distance_km r \<le> max_distance_km) df_clean'
                         in sort_key distance_km nearby_gauges)))"

subsection \<open>create\_claims\_timeline\<close>

definition to_datetime :: "day \<Rightarrow> timestamp" where
  "to_datetime d = d * ns_per_day"

text \<open>\<open>get_distance row\<close> is the row's \<open>distance_km\<close> cell, \<open>None\<close> when the frame has no such
  column, in which case \<open>row.get('distance_km', 0)\<close> yields 0.\<close>

definition row_events :: "('a summary_scheme \<Rightarrow> xreal option) \<Rightarrow> 'a summary_scheme \<Rightarrow> event list" where
  "row_events get_distance row =
     map (\<lambda>dc. Event (gauge_id row) (to_datetime (fst dc)) (snd dc) (discharge row)
                  (case get_distance row of Some d \<Rightarrow> d | None \<Rightarrow> Fin 0))
         (zip (dates row) (num_claims row))"

fun timeline_loop ::
  "('a summary_scheme \<Rightarrow> xreal option) \<Rightarrow> 'a summary_scheme list \<Rightarrow> event list \<Rightarrow> event list" where
  "timeline_loop get_distance [] all_events = all_events"
| "timeline_loop get_distance (row # rest) all_events =
     (if dates row \<noteq> [] \<and> num_claims row \<noteq> []
      then timeline_loop get_distance rest (all_events @ row_events get_distance row)
      else timeline_loop get_distance rest all_events)"

definition create_claims_timeline ::
  "('a summary_scheme \<Rightarrow> xreal option) \<Rightarrow> 'a summary_scheme list \<Rightarrow> event list" where
  "create_claims_timeline get_distance df = timeline_loop get_distance df []"

definition ranked_distance :: "ranked \<Rightarrow> xreal option" where
  "ranked_distance row = Some (distance_km row)"

section \<open>Example data\<close>

text \<open>
  Two claims at the same point near Nashville, lost on 2020-05-01 and 2020-05-02 (days
  18383 and 18384 of the epoch); a gauge row whose coordinate cells have different
  lengths, one with no vertex and one with two vertices; the value of \<open>eval\<close> and of
  \<open>literal_eval\<close> on the cell strings used; stored rows as \<open>load_gage_data\<close> reads them
  (\<open>stored_empty\<close> and \<open>stored_pair\<close> are what the batch script stores for \<open>gage_empty\<close> and
  \<open>gage_pair\<close>); and the geodesy library's answers for the
  two pairs of points used: 0 km from a point to itself, and an exception for a
  latitude outside \<open>[-90, 90]\<close>.
\<close>

abbreviation claim_may1 :: claim where
  "claim_may1 \<equiv> \<lparr>point = (-86.75, 36.15), dateOfLoss = 1588291200000000000\<rparr>"

abbreviation claim_may2 :: claim where
  "claim_may2 \<equiv> \<lparr>point = (-86.75, 36.15), dateOfLoss = 1588377600000000000\<rparr>"

abbreviation gage_uneven :: gage where
  "gage_uneven \<equiv> [''gauge_id'' \<mapsto> Num 3431500, ''longitude'' \<mapsto> Str ''[-86.8, -86.7]'',
     ''latitude'' \<mapsto> Str ''[36.15]'', ''discharge'' \<mapsto> Num 1000, ''sqmi'' \<mapsto> Num 10]"




abbreviation eval_table :: "string \<Rightarrow> real list option" where
  "eval_table \<equiv> map_of [(''[-86.8, -86.7]'', [-86.8, -86.7]), (''[36.15]'', [36.15]), (''[]'', [])]"

abbreviation stored_row :: "nat \<Rightarrow> gauge" where
  "stored_row n \<equiv> \<lparr>gauge_id = n, longitude = [-86.8, -86.7], latitude = [36.1, 36.2],
     discharge = 1000, sqmi = 10, dates = [18383, 18390], num_claims = [1, 3]\<rparr>"

abbreviation stored_empty :: gauge where
  "stored_empty \<equiv> \<lparr>gauge_id = 7, longitude = [], latitude = [],
     discharge = 1000, sqmi = 10, dates = [], num_claims = []\<rparr>"


abbreviation stored_bad :: gauge where
  "stored_bad \<equiv> \<lparr>gauge_id = 9, longitude = [36.15], latitude = [-95.3],
     discharge = 1000, sqmi = 10, dates = [18383], num_claims = [1]\<rparr>"

abbreviation geodesic_table :: "real \<times> real \<Rightarrow> real \<times> real \<Rightarrow> real option" where
  "geodesic_table \<equiv> (\<lambda>a b. case map_of [(((36.15, -86.75), (36.15, -86.75)), Some 0),
                                           (((36.15, -86.75), (-95.3, 36.15)), None)] (a, b) of
                             Some r \<Rightarrow> r | None \<Rightarrow> None)"

section \<open>Auxiliary facts\<close>

lemma groupby_size_Nil: "groupby_size [] = []"
  by (simp add: groupby_size_def)

lemma count_list_filter:
  "count_list (filter P ks) k = (if P k then count_list ks k else 0)"
  by (induction ks) auto

lemma sum_list_count_filter:
  "sum_list (map (count_list ks) (filter P (sort (remdups ks)))) = length (filter P ks)"
proof -
  have d: "distinct (filter P (sort (remdups ks)))" by simp
  have s: "set (filter P (sort (remdups ks))) = {k \<in> set ks. P k}" by auto
  have "sum_list (map (count_list ks) (filter P (sort (remdups ks)))) = sum (count_list ks) {k \<in> set ks. P k}"
    using sum_list_distinct_conv_sum_set[OF d, of "count_list ks"] s by simp
  also have "\<dots> = sum (count_list (filter P ks)) {k \<in> set ks. P k}"
    by (rule sum.cong) (auto simp: count_list_filter)
  also have "\<dots> = length (filter P ks)"
    by (rule sum_count_set) auto
  finally show ?thesis .
qed

lemma groupby_size_counts:
  "map snd (groupby_size ks) = map (count_list ks) (sort (remdups ks))"
  by (simp add: groupby_size_def comp_def)

lemma groupby_size_order:
  assumes "\<And>k. count_list ks k = count_list ks' k"
  shows "groupby_size ks = groupby_size ks'"
proof -
  have "k \<in> set ks \<longleftrightarrow> k \<in> set ks'" for k
    using assms[of k] count_list_0_iff[of ks k] count_list_0_iff[of ks' k] by simp
  then have "set ks = set ks'" by blast
  then have "sort (remdups ks) = sort (remdups ks')"
    by (metis sorted_list_of_set_sort_remdups)
  with assms show ?thesis by (simp add: groupby_size_def)
qed

lemma vertex_matches_in_range:
  "i \<in> set (vertex_matches claims v) \<Longrightarrow> i < length claims"
  by (simp add: vertex_matches_def query_radius_def claim_points_rad_def)

lemma groupby_size_total: "sum_list (map snd (groupby_size ks)) = length ks"
  using sum_list_count_filter[of ks "\<lambda>_. True"] by (simp add: groupby_size_counts)

lemma strftime_ymd_mono: "s \<le> t \<Longrightarrow> strftime_ymd s \<le> strftime_ymd t"
  by (simp add: strftime_ymd_def ns_per_day_def zdiv_mono1)

lemma groupby_size_days_sorted:
  "sorted (map (\<lambda>kc. strftime_ymd (fst kc)) (groupby_size ks))"
proof -
  have "map (\<lambda>kc. strftime_ymd (fst kc)) (groupby_size ks) = map strftime_ymd (sort (remdups ks))"
    by (simp add: groupby_size_def comp_def)
  moreover have "sorted (map strftime_ymd (sort (remdups ks)))"
    by (rule sorted_map_mono) (auto simp: mono_on_def strftime_ymd_mono)
  ultimately show ?thesis by simp
qed

lemma vertex_loop_concat:
  "vertex_loop claims tree vs (ds, cs) =
     (ds @ concat (map (\<lambda>v. map (\<lambda>kc. strftime_ymd (fst kc)) (vertex_counts claims tree v)) vs),
      cs @ concat (map (\<lambda>v. map snd (vertex_counts claims tree v)) vs))"
proof (induction vs arbitrary: ds cs)
  case Nil
  then show ?case by simp
next
  case (Cons v vs)
  obtain lon_g lat_g where v: "v = (lon_g, lat_g)" by (cases v)
  show ?case
  proof (cases "query_radius tree (radians lon_g, radians lat_g) radius = []")
    case True
    then show ?thesis
      using Cons.IH by (simp add: v vertex_counts_def iloc_def groupby_size_Nil)
  next
    case False
    then show ?thesis
      using Cons.IH by (simp add: v vertex_counts_def Let_def)
  qed
qed

lemma sum_list_concat: "sum_list (concat xss) = sum_list (map sum_list xss)"
  for xss :: "nat list list"
  by (induction xss) simp_all

lemma gage_series_concat:
  "gage_series claims lon_arr lat_arr =
     (concat (map (\<lambda>v. fst (vertex_series claims v)) (zip lon_arr lat_arr)),
      concat (map (\<lambda>v. snd (vertex_series claims v)) (zip lon_arr lat_arr)))"
  by (simp add: gage_series_def vertex_loop_concat vertex_series_def Let_def)

lemma vertex_series_length:
  "length (fst (vertex_series claims v)) = length (snd (vertex_series claims v))"
  by (simp add: vertex_series_def Let_def)

lemma vertex_series_sorted: "sorted (fst (vertex_series claims v))"
  by (simp add: vertex_series_def Let_def vertex_counts_def groupby_size_days_sorted)

lemma vertex_series_total:
  "sum_list (snd (vertex_series claims v)) = length (vertex_matches claims v)"
  by (simp add: vertex_series_def Let_def vertex_counts_def groupby_size_total iloc_def
      vertex_matches_def)

lemma vertex_series_day:
  "sum_list (map snd (filter (\<lambda>dc. fst dc = d)
       (zip (fst (vertex_series claims v)) (snd (vertex_series claims v))))) =
   length (filter (\<lambda>i. strftime_ymd (dateOfLoss (claims ! i)) = d) (vertex_matches claims v))"
proof -
  define ks where "ks = map dateOfLoss (iloc claims (vertex_matches claims v))"
  have z: "zip (fst (vertex_series claims v)) (snd (vertex_series claims v)) =
      map (\<lambda>k. (strftime_ymd k, count_list ks k)) (sort (remdups ks))"
    by (simp add: vertex_series_def Let_def vertex_counts_def groupby_size_def zip_map_map
        vertex_matches_def ks_def zip_same_conv_map comp_def)
  have "sum_list (map snd (filter (\<lambda>dc. fst dc = d)
       (zip (fst (vertex_series claims v)) (snd (vertex_series claims v))))) =
     sum_list (map (count_list ks) (filter (\<lambda>k. strftime_ymd k = d) (sort (remdups ks))))"
    unfolding z by (simp add: filter_map comp_def)
  also have "\<dots> = length (filter (\<lambda>k. strftime_ymd k = d) ks)"
    by (rule sum_list_count_filter)
  also have "\<dots> = length (filter (\<lambda>i. strftime_ymd (dateOfLoss (claims ! i)) = d) (vertex_matches claims v))"
    by (simp add: ks_def iloc_def filter_map comp_def)
  finally show ?thesis .
qed

lemma zip_concat_segments:
  "\<forall>v \<in> set vs. length (f v) = length (g v) \<Longrightarrow>
   zip (concat (map f vs)) (concat (map g vs)) = concat (map (\<lambda>v. zip (f v) (g v)) vs)"
  by (induction vs) simp_all

lemma matched_set_concat:
  "matched_set claims lon_arr lat_arr = set (concat (map (vertex_matches claims) (zip lon_arr lat_arr)))"
  by (simp add: matched_set_def)

lemma gage_series_total:
  "sum_list (snd (gage_series claims lon_arr lat_arr)) =
     length (concat (map (vertex_matches claims) (zip lon_arr lat_arr)))"
  by (simp add: gage_series_concat sum_list_concat length_concat comp_def vertex_series_total)

lemma abs_sin_eq: "\<bar>x\<bar> \<le> pi \<Longrightarrow> \<bar>sin x\<bar> = sin \<bar>x\<bar>"
proof (cases "0 \<le> x")
  case True
  assume "\<bar>x\<bar> \<le> pi"
  with True have "0 \<le> sin x" by (intro sin_ge_zero) auto
  with True show ?thesis by simp
next
  case False
  assume "\<bar>x\<bar> \<le> pi"
  with False have "0 \<le> sin (- x)" by (intro sin_ge_zero) auto
  with False show ?thesis by simp
qed

lemma haversine_same_snd:
  assumes "snd p = snd q" "\<bar>fst p - fst q\<bar> \<le> pi"
  shows "haversine p q = \<bar>fst p - fst q\<bar>"
proof -
  let ?h = "(fst p - fst q) / 2"
  have "sqrt (sin ?h * sin ?h) = \<bar>sin ?h\<bar>"
    by simp
  also have "\<dots> = sin \<bar>?h\<bar>"
    using assms(2) pi_gt_zero by (intro abs_sin_eq) auto
  finally have "haversine p q = 2 * arcsin (sin \<bar>?h\<bar>)"
    using assms(1) by (simp add: haversine_def)
  also have "arcsin (sin \<bar>?h\<bar>) = \<bar>?h\<bar>"
    using assms(2) by (intro arcsin_sin) auto
  finally show ?thesis by simp
qed

lemma haversine_pole: "cos a = 0 \<Longrightarrow> haversine (a, b) (a, c) = 0"
  by (simp add: haversine_def)

lemma near_same_lat:
  assumes "\<bar>a - b\<bar> \<le> 3 / 10"
  shows "haversine (radians a, radians c) (radians b, radians c) \<le> radius"
proof -
  have d: "\<bar>radians a - radians b\<bar> = \<bar>a - b\<bar> * pi / 180"
    by (simp add: radians_def abs_mult flip: diff_divide_distrib left_diff_distrib)
  have "\<bar>a - b\<bar> * pi \<le> (3 / 10) * 4"
    using assms pi_less_4 pi_gt_zero by (intro mult_mono) auto
  then have le: "\<bar>a - b\<bar> * pi / 180 \<le> 12 / 1800" by (simp add: field_simps)
  have "\<bar>a - b\<bar> * pi / 180 \<le> pi"
    using le pi_ge_two by linarith
  then have "haversine (radians a, radians c) (radians b, radians c) = \<bar>a - b\<bar> * pi / 180"
    using haversine_same_snd[of "(radians a, radians c)" "(radians b, radians c)"] d by simp
  with le have "haversine (radians a, radians c) (radians b, radians c) \<le> 12 / 1800"
    by (simp only:)
  also have "(12 / 1800 :: real) \<le> 50 / 6371" by simp
  finally show ?thesis by (simp add: radius_def)
qed

lemma radians_m90: "cos (radians (- 90)) = 0"
  by (simp add: radians_def)

lemmas run_simps = gage_series_def Let_def query_radius_def claim_points_rad_def
  near_same_lat upt_rec iloc_def groupby_size_def strftime_ymd_def ns_per_day_def vertex_matches_def

lemma gage_row_Inr:
  "has_columns gage \<Longrightarrow>
   gage_row py_eval claims (claim_points_rad claims) gage = Inr (out_row_of py_eval claims gage)"
  by (auto simp: has_columns_def gage_row_def column_def out_row_of_def coord_arr_def
      gage_series_def Let_def)

lemma gage_row_Inl:
  "\<not> has_columns gage \<Longrightarrow> \<exists>e. gage_row py_eval claims tree gage = Inl e"
  by (auto simp: has_columns_def gage_row_def column_def split: option.splits)

lemma main_loop_Inr:
  "\<forall>g \<in> set gages. has_columns g \<Longrightarrow>
   main_loop py_eval claims (claim_points_rad claims) gages output_rows =
     Inr (output_rows @ map (out_row_of py_eval claims) gages)"
  by (induction gages arbitrary: output_rows) (simp_all add: gage_row_Inr)

lemma main_loop_Inl:
  "\<not> (\<forall>g \<in> set gages. has_columns g) \<Longrightarrow>
   \<exists>e. main_loop py_eval claims tree gages output_rows = Inl e"
proof (induction gages arbitrary: output_rows)
  case Nil
  then show ?case by simp
next
  case (Cons g gages)
  show ?case
  proof (cases "has_columns g")
    case True
    then obtain row where "gage_row py_eval claims tree g = Inr row"
      by (auto simp: has_columns_def gage_row_def column_def Let_def)
    moreover from True Cons.prems have "\<not> (\<forall>g \<in> set gages. has_columns g)" by simp
    ultimately show ?thesis using Cons.IH by simp
  next
    case False
    then show ?thesis using gage_row_Inl[of g py_eval claims tree] by auto
  qed
qed

lemma BallTree_claims:
  "BallTree (claim_points_rad claims) =
     (if claims = [] then Inl ValueError else Inr (claim_points_rad claims))"
  by (simp add: BallTree_def claim_points_rad_def)

lemma main_empty_claims: "main py_eval [] gages = Inl ValueError"
  by (simp add: main_def BallTree_claims)

lemma main_Inr:
  "claims \<noteq> [] \<Longrightarrow> \<forall>g \<in> set gages. has_columns g \<Longrightarrow>
   main py_eval claims gages = Inr (map (out_row_of py_eval claims) gages)"
  by (simp add: main_def BallTree_claims main_loop_Inr)

lemma main_Inr_iff:
  "main py_eval claims gages = Inr rows \<longleftrightarrow>
     claims \<noteq> [] \<and> (\<forall>g \<in> set gages. has_columns g) \<and>
     rows = map (out_row_of py_eval claims) gages"
proof (cases "claims = []")
  case True
  then show ?thesis by (simp add: main_empty_claims)
next
  case ne: False
  show ?thesis
  proof (cases "\<forall>g \<in> set gages. has_columns g")
    case True
    with ne show ?thesis by (auto simp: main_Inr)
  next
    case False
    then show ?thesis
      using ne main_loop_Inl[OF False, of py_eval claims "claim_points_rad claims" "[]"]
      by (auto simp: main_def BallTree_claims)
  qed
qed

lemma gage_series_take:
  "gage_series claims lon_arr lat_arr =
     gage_series claims (take (min (length lon_arr) (length lat_arr)) lon_arr)
                        (take (min (length lon_arr) (length lat_arr)) lat_arr)"
  by (simp add: gage_series_def flip: take_zip)

lemma uneven_columns: "has_columns gage_uneven"
  by (simp add: has_columns_def)

lemma uneven_row:
  "out_row_of eval_table [claim_may1] gage_uneven =
     (\<lambda>k. map_option Orig (gage_uneven k))
       (''dates'' \<mapsto> DateList [18383], ''num_claims'' \<mapsto> CountList [1])"
  by (simp add: out_row_of_def coord_arr_def parse_coord_def run_simps)

lemma with_distance_simps:
  "distance_km (with_distance row d) = d"
  "summary.truncate (with_distance row d) = row"
  "center_lat (with_distance row d) = center_lat row"
  "center_lon (with_distance row d) = center_lon row"
  "gauge_id (with_distance row d) = gauge_id row"
  "dates (with_distance row d) = dates row"
  "num_claims (with_distance row d) = num_claims row"
  "discharge (with_distance row d) = discharge row"
  by (cases row; simp add: with_distance_def summary.defs ranked.defs gauge.defs)+

lemma load_row_simps:
  "center_lon (load_row g) = (if longitude g \<noteq> [] then Some (mean (longitude g)) else None)"
  "center_lat (load_row g) = (if latitude g \<noteq> [] then Some (mean (latitude g)) else None)"
  "dates (load_row g) = dates g"
  "num_claims (load_row g) = num_claims g"
  "gauge_id (load_row g) = gauge_id g"
  "discharge (load_row g) = discharge g"
  "total_claims (load_row g) = sum_list (num_claims g)"
  "num_events (load_row g) = length (dates g)"
  by (cases g; simp add: load_row_def summary.defs gauge.defs)+

lemma find_closest_gauges_set:
  "set (find_closest_gauges geodesic (Some df) target_lat target_lon max_distance_km) =
     {with_distance row (row_distance geodesic target_lat target_lon row) | row.
        row \<in> set df \<and> center_lat row \<noteq> None \<and> center_lon row \<noteq> None \<and>
        row_distance geodesic target_lat target_lon row \<le> max_distance_km}"
proof -
  have z: "zip rows (map f rows) = map (\<lambda>r. (r, f r)) rows" for rows :: "summary list" and f :: "summary \<Rightarrow> xreal"
    by (induction rows) simp_all
  show ?thesis
    by (auto simp: find_closest_gauges_def Let_def dropna_center_def z with_distance_simps
        filter_empty_conv image_iff)
qed

lemma timeline_loop_concat:
  "timeline_loop get_distance df all_events = all_events @ concat (map (row_events get_distance) df)"
proof (induction df arbitrary: all_events)
  case Nil
  then show ?case by simp
next
  case (Cons row rest)
  have "row_events get_distance row = []" if "\<not> (dates row \<noteq> [] \<and> num_claims row \<noteq> [])"
    using that by (auto simp: row_events_def)
  then show ?case using Cons.IH by auto
qed

lemma mean2: "mean [a, b] = (a + b) / 2"
  by (simp add: mean_def)

lemmas rank_simps = find_closest_gauges_def load_gage_data_def Let_def dropna_center_def
  load_row_simps row_distance_def with_distance_simps mean2







section \<open>The claims\<close>

text \<open>
  C1. The claim: a point is returned by the radius query exactly when its great-circle
  distance to the centre is at most the radius (within 1e-6 km). The code builds the tree
  from the columns \<open>['longitude', 'latitude']\<close> and queries it with \<open>[lon_g, lat_g]\<close>, while
  the metric reads the first coordinate as the latitude. At the input below (a claim at
  longitude -90, latitude 30; a gauge vertex at longitude -90, latitude 40) the code
  matches the claim, and the 50 km series of the gauge counts it, although the two
  points are \<open>6371 * pi / 18\<close> km (about 1112 km) apart on the sphere.
\<close>

theorem query_radius_swapped_columns:
  "vertex_matches [\<lparr>point = (-90, 30), dateOfLoss = 1588291200000000000\<rparr>] (-90, 40) = [0] \<and>
   gage_series [\<lparr>point = (-90, 30), dateOfLoss = 1588291200000000000\<rparr>] [-90] [40] = ([18383], [1]) \<and>
   great_circle_km (-90, 30) (-90, 40) = 6371 * pi / 18 \<and>
   50 + 1 / 10 ^ 6 < great_circle_km (-90, 30) (-90, 40)"
proof -
  have "haversine (radians 30, radians (-90)) (radians 40, radians (-90)) = \<bar>radians 30 - radians 40\<bar>"
    using pi_gt_zero by (intro haversine_same_snd[THEN trans]) (simp_all add: radians_def)
  then have g: "great_circle_km (-90, 30) (-90, 40) = 6371 * pi / 18"
    by (simp add: great_circle_km_def radians_def)
  have "50 + 1 / 10 ^ 6 < 6371 * (2::real) / 18" by simp
  also have "\<dots> \<le> 6371 * pi / 18" using pi_ge_two by simp
  finally have "50 + 1 / 10 ^ 6 < great_circle_km (-90, 30) (-90, 40)" using g by simp
  moreover have "vertex_matches [\<lparr>point = (-90, 30), dateOfLoss = 1588291200000000000\<rparr>] (-90, 40) = [0]"
    by (simp add: vertex_matches_def query_radius_def claim_points_rad_def haversine_pole radians_m90 radius_def)
  moreover have "gage_series [\<lparr>point = (-90, 30), dateOfLoss = 1588291200000000000\<rparr>] [-90] [40] = ([18383], [1])"
    by (simp add: gage_series_def Let_def query_radius_def claim_points_rad_def
        haversine_pole radians_m90 radius_def iloc_def groupby_size_def strftime_ymd_def ns_per_day_def)
  ultimately show ?thesis using g by simp
qed

text \<open>
  C2, as amended. The code takes no union over the vertices of a footprint: each vertex
  is queried and grouped on its own and its entries are appended. So for every day the
  counts reported for that day add up to the number of pairs (vertex, matched claim)
  with a loss on that day; a claim matched by k vertices is counted k times.
\<close>

theorem gage_series_counts_per_vertex_match:
  "day_total d (gage_series claims lon_arr lat_arr) =
     sum_list (map (\<lambda>v. length (filter (\<lambda>i. strftime_ymd (dateOfLoss (claims ! i)) = d)
                                  (vertex_matches claims v)))
                   (zip lon_arr lat_arr))"
proof -
  have "zip (fst (gage_series claims lon_arr lat_arr)) (snd (gage_series claims lon_arr lat_arr)) =
      concat (map (\<lambda>v. zip (fst (vertex_series claims v)) (snd (vertex_series claims v)))
        (zip lon_arr lat_arr))"
    by (simp add: gage_series_concat zip_concat_segments vertex_series_length)
  then show ?thesis
    by (simp add: day_total_def filter_concat map_concat sum_list_concat comp_def vertex_series_day)
qed

text \<open>
  The claim as stated fails: one claim within 50 km of both vertices of a footprint is
  reported twice, where the expansion worded by the specification reports it once.
\<close>

theorem gage_series_no_union_counterexample:
  "gage_series [claim_may1] [-86.8, -86.7] [36.15, 36.15] = ([18383, 18383], [1, 1]) \<and>
   spec_expand [claim_may1] [-86.8, -86.7] [36.15, 36.15] = ([18383], [1])"
  by (simp add: run_simps spec_expand_def)

theorem gage_series_counts_per_vertex_match_witness:
  "day_total 18383 (gage_series [claim_may1, claim_may2] [-86.8, -86.7] [36.15, 36.15]) = 2"
  using gage_series_counts_per_vertex_match[of 18383 "[claim_may1, claim_may2]" "[-86.8, -86.7]" "[36.15, 36.15]"]
  by (simp add: run_simps)

text \<open>
  C3, as amended. The counts of a gauge add up to the number of vertex matches (the sum
  over the vertices of the number of claims each one matches). That is never less than
  the number of distinct matched claims, and equals it when no claim is matched by two
  vertices.
\<close>

theorem gage_series_total_with_multiplicity:
  "sum_list (snd (gage_series claims lon_arr lat_arr)) =
     sum_list (map (\<lambda>v. length (vertex_matches claims v)) (zip lon_arr lat_arr)) \<and>
   card (matched_set claims lon_arr lat_arr) \<le> sum_list (snd (gage_series claims lon_arr lat_arr)) \<and>
   (distinct (concat (map (vertex_matches claims) (zip lon_arr lat_arr))) \<longrightarrow>
      sum_list (snd (gage_series claims lon_arr lat_arr)) = card (matched_set claims lon_arr lat_arr))"
proof -
  let ?ms = "concat (map (vertex_matches claims) (zip lon_arr lat_arr))"
  have l: "length ?ms = sum_list (map (\<lambda>v. length (vertex_matches claims v)) (zip lon_arr lat_arr))"
    by (simp add: length_concat comp_def)
  have t: "sum_list (snd (gage_series claims lon_arr lat_arr)) = length ?ms"
    by (rule gage_series_total)
  have m: "matched_set claims lon_arr lat_arr = set ?ms"
    by (rule matched_set_concat)
  have c: "card (set ?ms) \<le> length ?ms" by (rule card_length)
  have d: "length ?ms = card (set ?ms)" if "distinct ?ms"
    using that by (simp only: distinct_card)
  from l c d show ?thesis
    by (simp only: t m) blast
qed

text \<open>
  The claim as stated fails: with one claim matched by both vertices the counts add up
  to 2 while the set of matched claims has one element.
\<close>

theorem gage_series_total_counterexample:
  "sum_list (snd (gage_series [claim_may1] [-86.8, -86.7] [36.15, 36.15])) = 2 \<and>
   card (matched_set [claim_may1] [-86.8, -86.7] [36.15, 36.15]) = 1"
  by (simp add: run_simps matched_set_def)

theorem gage_series_total_with_multiplicity_witness:
  "distinct (concat (map (vertex_matches [claim_may1]) (zip [-86.8] [36.15]))) \<and>
   sum_list (snd (gage_series [claim_may1] [-86.8] [36.15])) = 1 \<and>
   card (matched_set [claim_may1] [-86.8] [36.15]) = 1"
proof -
  have d: "distinct (concat (map (vertex_matches [claim_may1]) (zip [-86.8] [36.15])))"
    by (simp add: run_simps)
  have s: "sum_list (snd (gage_series [claim_may1] [-86.8] [36.15])) = 1"
    by (simp add: run_simps)
  from gage_series_total_with_multiplicity[of "[claim_may1]" "[-86.8]" "[36.15]"] d s show ?thesis by simp
qed

text \<open>
  C4, as amended. The two output sequences of a gauge have the same length and are the
  concatenation, in vertex order, of one pair of parallel segments per vertex; the dates
  of each segment are in ascending order. The sequences are functions of the claims and
  the coordinates alone. The dates of the whole gauge need not be ascending.
\<close>

theorem gage_series_parallel_segments:
  "length (fst (gage_series claims lon_arr lat_arr)) = length (snd (gage_series claims lon_arr lat_arr)) \<and>
   fst (gage_series claims lon_arr lat_arr) = concat (map (\<lambda>v. fst (vertex_series claims v)) (zip lon_arr lat_arr)) \<and>
   snd (gage_series claims lon_arr lat_arr) = concat (map (\<lambda>v. snd (vertex_series claims v)) (zip lon_arr lat_arr)) \<and>
   (\<forall>v \<in> set (zip lon_arr lat_arr).
      sorted (fst (vertex_series claims v)) \<and>
      length (fst (vertex_series claims v)) = length (snd (vertex_series claims v)))"
  by (simp add: gage_series_concat length_concat comp_def vertex_series_length vertex_series_sorted)

text \<open>
  The claim as stated fails: two claims on consecutive days matched by both vertices
  give the dates of the first vertex followed by the same dates again.
\<close>

theorem gage_series_not_sorted_counterexample:
  "fst (gage_series [claim_may1, claim_may2] [-86.8, -86.7] [36.15, 36.15]) = [18383, 18384, 18383, 18384] \<and>
   \<not> sorted (fst (gage_series [claim_may1, claim_may2] [-86.8, -86.7] [36.15, 36.15]))"
  by (simp add: run_simps)

theorem gage_series_parallel_segments_witness:
  "length (fst (gage_series [claim_may1, claim_may2] [-86.8, -86.7] [36.15, 36.15])) = 4 \<and>
   length (snd (gage_series [claim_may1, claim_may2] [-86.8, -86.7] [36.15, 36.15])) = 4 \<and>
   sorted (fst (vertex_series [claim_may1, claim_may2] (-86.7, 36.15)))"
proof -
  have l: "length (fst (gage_series [claim_may1, claim_may2] [-86.8, -86.7] [36.15, 36.15])) = 4"
    by (simp add: run_simps)
  have m: "(-86.7, 36.15) \<in> set (zip [-86.8, -86.7] [36.15, 36.15 :: real])" by simp
  from gage_series_parallel_segments[of "[claim_may1, claim_may2]" "[-86.8, -86.7]" "[36.15, 36.15]"] l m
  show ?thesis by (metis)
qed

text \<open>
  C5, as amended. The output of \<open>find_closest_gauges\<close> is in ascending order of
  \<open>distance_km\<close>. The code sorts on that column alone; the order of rows at the same
  distance does not depend on \<open>gauge_id\<close>.
\<close>

theorem find_closest_gauges_sorted_by_distance:
  "sorted (map distance_km (find_closest_gauges geodesic df target_lat target_lon max_distance_km))"
proof (cases df)
  case None
  then show ?thesis by (simp add: find_closest_gauges_def)
next
  case (Some rows)
  then show ?thesis by (simp add: find_closest_gauges_def Let_def)
qed

text \<open>
  The claim as stated fails: two gauges with the same centre, stored with the larger
  \<open>gauge_id\<close> first, come out in that order.
\<close>

theorem find_closest_gauges_tie_counterexample:
  "map (\<lambda>r. (distance_km r, gauge_id r))
     (find_closest_gauges geodesic_table (Some (load_gage_data [stored_row 2, stored_row 1]))
        36.15 (-86.75) (Fin 50)) = [(Fin 0, 2), (Fin 0, 1)]"
  by (simp add: rank_simps del: not_None_eq)

theorem find_closest_gauges_sorted_by_distance_witness:
  "sorted (map distance_km
     (find_closest_gauges geodesic_table (Some (load_gage_data [stored_row 2, stored_row 1]))
        36.15 (-86.75) (Fin 50)))"
  by (rule find_closest_gauges_sorted_by_distance)

text \<open>
  C6, as amended. When the claim set is not empty (so that the tree is built), a gauge
  row whose longitude and latitude cells parse to sequences of different lengths is not
  skipped and raises nothing: \<open>zip\<close> pairs the coordinates up to the shorter length, those
  vertices contribute their matches, the rest of the longer sequence is ignored, and
  \<open>main\<close> returns one row per gauge.
\<close>

theorem main_pairs_common_prefix:
  assumes "claims \<noteq> []" and "\<forall>g \<in> set gages. has_columns g"
  shows "\<exists>rows. main py_eval claims gages = Inr rows \<and> length rows = length gages \<and>
     (\<forall>i < length gages.
        let lon_arr = coord_arr py_eval (gages ! i) ''longitude'';
            lat_arr = coord_arr py_eval (gages ! i) ''latitude'';
            n = min (length lon_arr) (length lat_arr);
            series = gage_series claims (take n lon_arr) (take n lat_arr)
        in (rows ! i) ''dates'' = Some (DateList (fst series)) \<and>
           (rows ! i) ''num_claims'' = Some (CountList (snd series)))"
  using assms gage_series_take by (simp add: main_Inr out_row_of_def Let_def)

text \<open>
  The claim as stated fails: a gauge with two longitudes and one latitude gets a row, and
  the row holds the match of its first vertex.
\<close>

theorem main_uneven_not_skipped_counterexample:
  "main eval_table [claim_may1] [gage_uneven] =
     Inr [(\<lambda>k. map_option Orig (gage_uneven k))
            (''dates'' \<mapsto> DateList [18383], ''num_claims'' \<mapsto> CountList [1])]"
  using main_Inr[of "[claim_may1]" "[gage_uneven]" eval_table] uneven_columns uneven_row
  by simp

theorem main_pairs_common_prefix_witness:
  "[claim_may1] \<noteq> [] \<and> has_columns gage_uneven \<and>
   (\<exists>rows. main eval_table [claim_may1] [gage_uneven] = Inr rows \<and> length rows = 1 \<and>
      (rows ! 0) ''dates'' =
        Some (DateList (fst (gage_series [claim_may1] [-86.8] [36.15]))))"
proof -
  have c: "[claim_may1] \<noteq> []" by simp
  have h: "\<forall>g \<in> set [gage_uneven]. has_columns g" using uneven_columns by simp
  from main_pairs_common_prefix[OF c h, of eval_table] obtain rows where
    r: "main eval_table [claim_may1] [gage_uneven] = Inr rows" "length rows = 1"
      "(rows ! 0) ''dates'' = Some (DateList (fst (gage_series [claim_may1] [-86.8] [36.15])))"
    by (auto simp: Let_def coord_arr_def parse_coord_def)
  with uneven_columns show ?thesis by blast
qed




text \<open>
  C8. \<open>create_claims_timeline\<close> yields, gauge by gauge in the order of the frame, one
  event per pair of \<open>zip(dates, num_claims)\<close> in the order of the lists, each with the
  gauge's \<open>discharge\<close> and \<open>distance_km\<close>; a gauge with no pair contributes nothing, and the
  events are not reordered.
\<close>

theorem create_claims_timeline_events:
  "create_claims_timeline ranked_distance df =
     concat (map (\<lambda>row. map (\<lambda>dc. Event (gauge_id row) (to_datetime (fst dc)) (snd dc)
                                     (discharge row) (distance_km row))
                             (zip (dates row) (num_claims row))) df)"
  by (simp add: create_claims_timeline_def timeline_loop_concat row_events_def[abs_def] ranked_distance_def)

theorem create_claims_timeline_events_witness:
  "create_claims_timeline ranked_distance
     [with_distance (load_row (stored_row 2)) (Fin 5), with_distance (load_row stored_empty) (Fin 1),
      with_distance (load_row (stored_row 1)) (Fin 3)] =
   [Event 2 1588291200000000000 1 1000 (Fin 5), Event 2 1588896000000000000 3 1000 (Fin 5),
    Event 1 1588291200000000000 1 1000 (Fin 3), Event 1 1588896000000000000 3 1000 (Fin 3)]"
  by (simp add: create_claims_timeline_events with_distance_simps load_row_simps to_datetime_def ns_per_day_def)

text \<open>
  C9. When \<open>main\<close> returns, it returns one row per gauge, in order; every column of the
  gauge other than the two added ones has its original cell in the row, and the row
  has the two list cells \<open>dates\<close> and \<open>num_claims\<close>.
\<close>

theorem main_preserves_columns:
  assumes "main py_eval claims gages = Inr rows"
  shows "length rows = length gages \<and>
     (\<forall>i < length gages. \<forall>k. k \<noteq> ''dates'' \<longrightarrow> k \<noteq> ''num_claims'' \<longrightarrow>
        (rows ! i) k = map_option Orig ((gages ! i) k)) \<and>
     (\<forall>i < length gages. \<exists>ds cs. (rows ! i) ''dates'' = Some (DateList ds) \<and>
        (rows ! i) ''num_claims'' = Some (CountList cs))"
  using assms by (auto simp: main_Inr_iff out_row_of_def Let_def)

theorem main_preserves_columns_witness:
  "main eval_table [claim_may1] [gage_uneven] =
     Inr [out_row_of eval_table [claim_may1] gage_uneven] \<and>
   out_row_of eval_table [claim_may1] gage_uneven ''gauge_id'' = Some (Orig (Num 3431500)) \<and>
   out_row_of eval_table [claim_may1] gage_uneven ''longitude'' = Some (Orig (Str ''[-86.8, -86.7]''))"
proof -
  have h: "\<forall>g \<in> set [gage_uneven]. has_columns g" using uneven_columns by simp
  have m: "main eval_table [claim_may1] [gage_uneven] = Inr [out_row_of eval_table [claim_may1] gage_uneven]"
    using main_Inr[OF _ h, of "[claim_may1]"] by simp
  from main_preserves_columns[OF m] have
    "\<forall>k. k \<noteq> ''dates'' \<longrightarrow> k \<noteq> ''num_claims'' \<longrightarrow>
       out_row_of eval_table [claim_may1] gage_uneven k = map_option Orig (gage_uneven k)"
    by simp
  then have "out_row_of eval_table [claim_may1] gage_uneven ''gauge_id'' = map_option Orig (gage_uneven ''gauge_id'')"
    and "out_row_of eval_table [claim_may1] gage_uneven ''longitude'' = map_option Orig (gage_uneven ''longitude'')"
    by simp_all
  with m show ?thesis by simp
qed

text \<open>
  C10. For a row with a defined centre for which the distance computation raises, the
  distance assigned is \<open>inf\<close>: the row is part of the result when the maximal distance is
  \<open>inf\<close>, and of no result for a finite maximal distance.
\<close>

theorem find_closest_gauges_failed_distance:
  assumes "row \<in> set df" "center_lat row = Some lat" "center_lon row = Some lon"
    and "geodesic (target_lat, target_lon) (lat, lon) = None"
  shows "row_distance geodesic target_lat target_lon row = PInf \<and>
     with_distance row PInf \<in> set (find_closest_gauges geodesic (Some df) target_lat target_lon PInf) \<and>
     (\<forall>r \<in> set (find_closest_gauges geodesic (Some df) target_lat target_lon (Fin m)).
        summary.truncate r \<noteq> row)"
proof -
  have d: "row_distance geodesic target_lat target_lon row = PInf"
    using assms by (simp add: row_distance_def)
  have "with_distance row PInf \<in> set (find_closest_gauges geodesic (Some df) target_lat target_lon PInf)"
    unfolding find_closest_gauges_set using assms(1,2,3) d
    by (intro CollectI exI[of _ row]) simp
  moreover have "summary.truncate r \<noteq> row"
    if "r \<in> set (find_closest_gauges geodesic (Some df) target_lat target_lon (Fin m))" for r
    using that d by (auto simp: find_closest_gauges_set with_distance_simps)
  ultimately show ?thesis using d by blast
qed

theorem find_closest_gauges_failed_distance_witness:
  "row_distance geodesic_table 36.15 (-86.75) (load_row stored_bad) = PInf \<and>
   find_closest_gauges geodesic_table (Some (load_gage_data [stored_row 2, stored_bad])) 36.15 (-86.75) (Fin 50)
     = [with_distance (load_row (stored_row 2)) (Fin 0)] \<and>
   summary.truncate (with_distance (load_row (stored_row 2)) (Fin 0)) \<noteq> load_row stored_bad"
proof -
  have 1: "load_row stored_bad \<in> set (load_gage_data [stored_row 2, stored_bad])"
    by (simp add: load_gage_data_def)
  have 2: "center_lat (load_row stored_bad) = Some (-95.3)" by (simp add: load_row_simps mean_def)
  have 3: "center_lon (load_row stored_bad) = Some 36.15" by (simp add: load_row_simps mean_def)
  have 4: "geodesic_table (36.15, -86.75) (-95.3, 36.15) = None" by simp
  have e: "find_closest_gauges geodesic_table (Some (load_gage_data [stored_row 2, stored_bad])) 36.15 (-86.75) (Fin 50)
     = [with_distance (load_row (stored_row 2)) (Fin 0)]"
    by (simp add: rank_simps mean_def del: not_None_eq)
  from find_closest_gauges_failed_distance[where geodesic = geodesic_table and target_lat = "36.15" and target_lon = "-86.75"
      and m = 50, OF 1 2 3 4] e
  show ?thesis by simp
qed

end
